theory Spec2Isabelle
  imports Main "HOL-Library.AList"
begin

section \<open>JavaScript values\<close>

text \<open>
  The request layer of the SDK (\<^verbatim>\<open>src/request.js\<close>) works on dynamically typed
  values: it tests them for truthiness, reads properties of them and pastes them into
  strings. The values that occur are modelled by one datatype. Numbers are the integral
  ones together with \<^verbatim>\<open>NaN\<close>; an object is the list of its own properties in insertion
  order. The properties that the code reads under a fixed name are own properties, read
  through \<open>map_of\<close>; the table of server URLs is read under a name that the caller
  chooses, and that read finds the members that every object inherits as well (see
  \<open>lookup_member\<close>).
\<close>

datatype jsval =
    Undefined
  | Null
  | Bool bool
  | Num int
  | NaN
  | Str string
  | Obj "(string \<times> jsval) list"

text \<open>What \<^verbatim>\<open>if (v)\<close>, \<^verbatim>\<open>!v\<close>, \<^verbatim>\<open>a && b\<close> and \<^verbatim>\<open>a || b\<close> test.\<close>

fun truthy :: "jsval \<Rightarrow> bool" where
  "truthy Undefined = False"
| "truthy Null = False"
| "truthy (Bool b) = b"
| "truthy (Num n) = (n \<noteq> 0)"
| "truthy NaN = False"
| "truthy (Str s) = (s \<noteq> [])"
| "truthy (Obj kvs) = True"

text \<open>Reading a property of \<^verbatim>\<open>undefined\<close> or \<^verbatim>\<open>null\<close> raises a TypeError.\<close>

fun nullish :: "jsval \<Rightarrow> bool" where
  "nullish Undefined = True"
| "nullish Null = True"
| "nullish v = False"

text \<open>
  \<^verbatim>\<open>v.k\<close> for a value that is not nullish: an own property of an object, and
  \<^verbatim>\<open>undefined\<close> for a missing property or a primitive value (none of the property
  names read by the code exists on a primitive).
\<close>

fun getp :: "jsval \<Rightarrow> string \<Rightarrow> jsval" where
  "getp (Obj kvs) k = (case map_of kvs k of Some v \<Rightarrow> v | None \<Rightarrow> Undefined)"
| "getp v k = Undefined"

text \<open>\<^verbatim>\<open>a || b\<close>\<close>

definition js_or :: "jsval \<Rightarrow> jsval \<Rightarrow> jsval" where
  "js_or a b = (if truthy a then a else b)"

text \<open>A default parameter value \<^verbatim>\<open>(x = d) => ...\<close> replaces \<^verbatim>\<open>undefined\<close> only.\<close>

definition default_param :: "jsval \<Rightarrow> jsval \<Rightarrow> jsval" where
  "default_param x d = (if x = Undefined then d else x)"

subsection \<open>Numbers and values as strings\<close>

text \<open>The character of a decimal digit \<open>n < 10\<close>.\<close>

definition digit_char :: "nat \<Rightarrow> char" where
  "digit_char n = ''0123456789'' ! n"

function dec_nat :: "nat \<Rightarrow> string" where
  "dec_nat n = (if n < 10 then [digit_char n] else dec_nat (n div 10) @ [digit_char (n mod 10)])"
  by pat_completeness auto
termination
  by (relation "measure (\<lambda>n. n)") auto

declare dec_nat.simps [simp del]

text \<open>
  The decimal text of an integral number, as string concatenation and template literals
  produce it (the millisecond clock stays far below the size where JavaScript switches
  to exponent notation).
\<close>

definition dec_int :: "int \<Rightarrow> string" where
  "dec_int i = (if i < 0 then CHR ''-'' # dec_nat (nat (- i)) else dec_nat (nat i))"

text \<open>\<^verbatim>\<open>String(v)\<close>, also the conversion inside \<^verbatim>\<open>`${v}`\<close> and \<^verbatim>\<open>s += v\<close>.\<close>

fun toString :: "jsval \<Rightarrow> string" where
  "toString Undefined = ''undefined''"
| "toString Null = ''null''"
| "toString (Bool b) = (if b then ''true'' else ''false'')"
| "toString (Num n) = dec_int n"
| "toString NaN = ''NaN''"
| "toString (Str s) = s"
| "toString (Obj kvs) = ''[object Object]''"

text \<open>\<^verbatim>\<open>n + v\<close> for a number \<open>n\<close>: concatenation with a string, addition otherwise.\<close>

fun num_plus :: "int \<Rightarrow> jsval \<Rightarrow> jsval" where
  "num_plus n (Str s) = Str (dec_int n @ s)"
| "num_plus n (Obj kvs) = Str (dec_int n @ ''[object Object]'')"
| "num_plus n (Num m) = Num (n + m)"
| "num_plus n (Bool b) = Num (n + (if b then 1 else 0))"
| "num_plus n Null = Num n"
| "num_plus n Undefined = NaN"
| "num_plus n NaN = NaN"

text \<open>\<^verbatim>\<open>s.toLowerCase()\<close> on the ASCII letters; the other bytes stay.\<close>

definition lower_char :: "char \<Rightarrow> char" where
  "lower_char c =
     (if (65::nat) \<le> of_char c \<and> (of_char c :: nat) \<le> 90 then char_of ((of_char c :: nat) + 32) else c)"

definition toLowerCase :: "string \<Rightarrow> string" where
  "toLowerCase s = map lower_char s"

subsection \<open>Objects\<close>

text \<open>
  \<^verbatim>\<open>extend(dst, src1, src2, ...)\<close> of the underscore library: for every source in turn
  and every key of it, \<^verbatim>\<open>dst[key] = source[key]\<close>; a source that is not an object has
  no keys. (It is named \<open>extend_obj\<close> here, the name \<open>extend\<close> being taken by the
  records.)
\<close>

fun extend1 :: "(string \<times> jsval) list \<Rightarrow> jsval \<Rightarrow> (string \<times> jsval) list" where
  "extend1 dst (Obj kvs) = fold (\<lambda>k obj. AList.update k (getp (Obj kvs) k) obj) (map fst kvs) dst"
| "extend1 dst v = dst"

definition extend_obj :: "(string \<times> jsval) list \<Rightarrow> jsval list \<Rightarrow> jsval" where
  "extend_obj dst srcs = Obj (fold (\<lambda>src obj. extend1 obj src) srcs dst)"

section \<open>Outcomes\<close>

text \<open>
  What can be thrown or be the reason of a rejection: a TypeError of the engine, an
  \<^verbatim>\<open>Error\<close> with its message, the SDK's \<^verbatim>\<open>AVError(code, message)\<close> (its constructor is
  given the two values as they are), or a value that a collaborator rejected with.
\<close>

datatype exn =
    TypeError
  | Error string
  | AVError jsval jsval
  | Reason jsval

text \<open>A call either throws synchronously or returns.\<close>

datatype 'a completion = Throws exn | Returns 'a

text \<open>The state in which a promise ends up, \<open>Pending\<close> when it never settles.\<close>

datatype ('a, 'e) promise = Fulfilled 'a | Rejected 'e | Pending

section \<open>The signer\<close>

text \<open>
  \<^verbatim>\<open>sign(key, isMasterKey)\<close>. The digest function of the \<^verbatim>\<open>md5\<close> package and the reading
  \<open>now\<close> of the millisecond clock (\<^verbatim>\<open>new Date().getTime()\<close>) are parameters.
\<close>

definition sign :: "(jsval \<Rightarrow> string) \<Rightarrow> int \<Rightarrow> jsval \<Rightarrow> jsval \<Rightarrow> string" where
  "sign md5 now key isMasterKey =
     (let signature = md5 (num_plus now key)
      in if truthy isMasterKey then signature @ '','' @ dec_int now @ '',master''
         else signature @ '','' @ dec_int now)"

section \<open>The error normaliser\<close>

text \<open>
  The body of the executor that \<^verbatim>\<open>handleError\<close> hands to \<^verbatim>\<open>new Promise\<close>:
  \<open>Returns r\<close> when it calls \<^verbatim>\<open>reject(r)\<close>, \<open>Throws e\<close> when a property read inside it
  raises. \<^verbatim>\<open>JSON.parse\<close> is a parameter: \<open>None\<close> when it raises a SyntaxError.
\<close>

definition handleError_executor :: "(jsval \<Rightarrow> jsval option) \<Rightarrow> jsval \<Rightarrow> exn completion" where
  "handleError_executor JSON_parse error =
     (if nullish error then Throws TypeError
      else
        let errorJSON0 = Obj [(''code'', js_or (getp error ''code'') (Num (- 1))),
                              (''error'', js_or (getp error ''message'') (getp error ''responseText''))];
            errorJSON =
              (if truthy (getp error ''response'') \<and> truthy (getp (getp error ''response'') ''code'')
               then getp error ''response''
               else if truthy (getp error ''responseText'')
               then (case JSON_parse (getp error ''responseText'') of
                       Some parsed \<Rightarrow> parsed
                     | None \<Rightarrow> errorJSON0)
               else errorJSON0)
        in if nullish errorJSON then Throws TypeError
           else Returns (AVError (getp errorJSON ''code'') (getp errorJSON ''error'')))"

text \<open>
  \<^verbatim>\<open>new Promise(executor)\<close> for an executor that never resolves: the promise is rejected
  with what the executor passes to \<^verbatim>\<open>reject\<close>, or with what it throws.
\<close>

definition handleError :: "(jsval \<Rightarrow> jsval option) \<Rightarrow> jsval \<Rightarrow> (jsval, exn) promise" where
  "handleError JSON_parse error =
     (case handleError_executor JSON_parse error of
        Returns r \<Rightarrow> Rejected r
      | Throws e \<Rightarrow> Rejected e)"

section \<open>Configuration and collaborators\<close>

text \<open>
  The fields of \<^verbatim>\<open>AV._config\<close> that the request layer reads. The table \<^verbatim>\<open>serverURLs\<close> is
  a plain object, given by its own properties, or \<open>None\<close> when it is \<^verbatim>\<open>undefined\<close> or
  \<^verbatim>\<open>null\<close>.
\<close>

record config =
  useMasterKey :: jsval
  production :: jsval
  serverURLs :: "(string \<times> jsval) list option"
  userAgent :: jsval
  disableCurrentUser :: jsval

text \<open>The global \<^verbatim>\<open>AV\<close>: the credentials and \<^verbatim>\<open>AV._config\<close> (field \<open>config\<close>).\<close>

record av =
  applicationId :: jsval
  applicationKey :: jsval
  masterKey :: jsval
  hookKey :: jsval
  config :: config

text \<open>The argument object of the transport \<^verbatim>\<open>ajax({ method, url, query, data, headers })\<close>.\<close>

record ajax_args =
  ajax_method :: jsval
  ajax_url :: string
  ajax_query :: jsval
  ajax_data :: jsval
  ajax_headers :: "(string \<times> jsval) list"

text \<open>The effects of a call, in the order in which they happen.\<close>

datatype event =
    Refresh
  | Warn string
  | CurrentAsync
  | Ajax ajax_args

text \<open>
  What the layer takes from outside \<^verbatim>\<open>request.js\<close>: the \<^verbatim>\<open>md5\<close> package, the clock,
  \<^verbatim>\<open>process.env.CLIENT_PLATFORM\<close>, \<^verbatim>\<open>JSON.parse\<close>, the helper \<^verbatim>\<open>getSessionToken\<close> of
  \<^verbatim>\<open>utils\<close>, the promise that \<^verbatim>\<open>AV.User.currentAsync()\<close> returns, the effect of
  \<^verbatim>\<open>AV._appRouter.refresh()\<close> on the table of server URLs, and the transport \<^verbatim>\<open>ajax\<close>.
\<close>

record env =
  md5 :: "jsval \<Rightarrow> string"
  now :: int
  CLIENT_PLATFORM :: jsval
  JSON_parse :: "jsval \<Rightarrow> jsval option"
  getSessionToken :: "jsval \<Rightarrow> jsval"
  currentAsync :: "(jsval, exn) promise"
  refresh :: "(string \<times> jsval) list option \<Rightarrow> (string \<times> jsval) list option"
  ajax :: "ajax_args \<Rightarrow> (jsval, jsval) promise"

section \<open>The header builder\<close>

definition setAppId ::
  "env \<Rightarrow> av \<Rightarrow> (string \<times> jsval) list \<Rightarrow> jsval \<Rightarrow> (string \<times> jsval) list" where
  "setAppId E AV headers signKey =
     (if truthy signKey
      then AList.update ''X-LC-Sign'' (Str (sign (md5 E) (now E) (applicationKey AV) Undefined)) headers
      else AList.update ''X-LC-Key'' (applicationKey AV) headers)"

text \<open>\<^verbatim>\<open>typeof v === 'boolean'\<close>\<close>

fun is_boolean :: "jsval \<Rightarrow> bool" where
  "is_boolean (Bool b) = True"
| "is_boolean v = False"

text \<open>The local variable \<^verbatim>\<open>useMasterKey\<close> of \<^verbatim>\<open>setHeaders\<close> after lines 36 to 41.\<close>

definition resolve_useMasterKey :: "av \<Rightarrow> jsval \<Rightarrow> jsval" where
  "resolve_useMasterKey AV authOptions =
     (if is_boolean (getp authOptions ''useMasterKey'') then getp authOptions ''useMasterKey''
      else if is_boolean (useMasterKey (config AV)) then useMasterKey (config AV)
      else Bool False)"

text \<open>
  The synchronous part of \<^verbatim>\<open>setHeaders\<close> (lines 32 to 62) for an \<^verbatim>\<open>authOptions\<close> that is
  not nullish: the warnings written to the console and the header object.
\<close>

definition syncHeaders ::
  "env \<Rightarrow> av \<Rightarrow> jsval \<Rightarrow> jsval \<Rightarrow> event list \<times> (string \<times> jsval) list" where
  "syncHeaders E AV authOptions signKey =
     (let headers0 = [(''X-LC-Id'', applicationId AV),
                      (''Content-Type'', Str ''application/json;charset=UTF-8'')];
          (warns, headers1) =
            (if truthy (resolve_useMasterKey AV authOptions) then
               if truthy (masterKey AV) then
                 ([], if truthy signKey
                      then AList.update ''X-LC-Sign''
                             (Str (sign (md5 E) (now E) (masterKey AV) (Bool True))) headers0
                      else AList.update ''X-LC-Key''
                             (Str (toString (masterKey AV) @ '',master'')) headers0)
               else ([Warn ''masterKey is not set, fall back to use appKey''],
                     setAppId E AV headers0 signKey)
             else ([], setAppId E AV headers0 signKey));
          headers2 = (if truthy (hookKey AV)
                      then AList.update ''X-LC-Hook-Key'' (hookKey AV) headers1 else headers1);
          headers3 = (if production (config AV) \<noteq> Null
                      then AList.update ''X-LC-Prod'' (Str (toString (production (config AV)))) headers2
                      else headers2);
          headers4 = AList.update (if \<not> truthy (CLIENT_PLATFORM E) then ''User-Agent'' else ''X-LC-UA'')
                       (userAgent (config AV)) headers3
      in (warns, headers4))"

text \<open>
  \<^verbatim>\<open>setHeaders(authOptions = {}, signKey)\<close>: it throws when \<^verbatim>\<open>authOptions\<close> is \<^verbatim>\<open>null\<close>,
  and returns a promise of the headers otherwise. The callback of
  \<^verbatim>\<open>Promise.resolve().then\<close> runs once; the provider of the current user is asked
  inside it.
\<close>

definition setHeaders ::
  "env \<Rightarrow> av \<Rightarrow> jsval \<Rightarrow> jsval \<Rightarrow> event list \<times> ((string \<times> jsval) list, exn) promise completion" where
  "setHeaders E AV authOptions0 signKey =
     (let authOptions = default_param authOptions0 (Obj []) in
      if nullish authOptions then ([], Throws TypeError)
      else
        let (warns, headers) = syncHeaders E AV authOptions signKey;
            sessionToken = getSessionToken E authOptions
        in if truthy sessionToken
           then (warns, Returns (Fulfilled (AList.update ''X-LC-Session'' sessionToken headers)))
           else if \<not> truthy (disableCurrentUser (config AV))
           then (warns @ [CurrentAsync],
                 Returns (case currentAsync E of
                            Fulfilled currentUser \<Rightarrow>
                              Fulfilled (if truthy currentUser \<and> truthy (getp currentUser ''_sessionToken'')
                                         then AList.update ''X-LC-Session''
                                                (getp currentUser ''_sessionToken'') headers
                                         else headers)
                          | Rejected e \<Rightarrow> Rejected e
                          | Pending \<Rightarrow> Pending))
           else (warns, Returns (Fulfilled headers)))"

section \<open>The URL builder\<close>

text \<open>
  The members that a plain object inherits from \<^verbatim>\<open>Object.prototype\<close>: the standard ones,
  and the legacy ones that Node and the browsers add. Each of them is a function, but for
  \<^verbatim>\<open>__proto__\<close>, which is \<^verbatim>\<open>Object.prototype\<close> itself.
\<close>

definition object_prototype_members :: "string list" where
  "object_prototype_members =
     [''constructor'', ''hasOwnProperty'', ''isPrototypeOf'', ''propertyIsEnumerable'',
      ''toLocaleString'', ''toString'', ''valueOf'', ''__proto__'',
      ''__defineGetter__'', ''__defineSetter__'', ''__lookupGetter__'', ''__lookupSetter__'']"

text \<open>
  What \<^verbatim>\<open>table[name]\<close> finds in a plain object: an own property with its value, else an
  inherited member, else nothing (the read gives \<^verbatim>\<open>undefined\<close>).
\<close>

datatype lookup = Own jsval | Inherited | Absent

definition lookup_member :: "(string \<times> jsval) list \<Rightarrow> string \<Rightarrow> lookup" where
  "lookup_member tbl name =
     (case map_of tbl name of
        Some v \<Rightarrow> Own v
      | None \<Rightarrow> if name \<in> set object_prototype_members then Inherited else Absent)"

text \<open>
  \<^verbatim>\<open>createApiUrl({ service = 'api', version = '1.1', path })\<close>. Reading the table when
  it is \<^verbatim>\<open>undefined\<close> or \<^verbatim>\<open>null\<close> is a TypeError. An inherited member is truthy and passes
  the guard of line 91; it has no \<^verbatim>\<open>charAt\<close>, and neither has a truthy own entry that is
  not a string, so that line 93 is a TypeError for both.
\<close>

definition createApiUrl :: "av \<Rightarrow> jsval \<Rightarrow> jsval \<Rightarrow> jsval \<Rightarrow> string completion" where
  "createApiUrl AV service0 version0 path0 =
     (let service1 = default_param service0 (Str ''api'');
          version1 = default_param version0 (Str ''1.1'')
      in case serverURLs (config AV) of
           None \<Rightarrow> Throws TypeError
         | Some tbl \<Rightarrow>
             (case lookup_member tbl (toString service1) of
                Absent \<Rightarrow> Throws (Error (''undefined server URL for '' @ toString service1))
              | Inherited \<Rightarrow> Throws TypeError
              | Own apiURL \<Rightarrow>
                  if \<not> truthy apiURL
                  then Throws (Error (''undefined server URL for '' @ toString service1))
                  else (case apiURL of
                          Str base \<Rightarrow>
                            Returns ((if last base \<noteq> CHR ''/'' then base @ ''/'' else base)
                                     @ toString version1
                                     @ (if truthy path0 then toString path0 else []))
                        | _ \<Rightarrow> Throws TypeError)))"

section \<open>The dispatcher\<close>

text \<open>The fields of the object that \<^verbatim>\<open>request\<close> takes.\<close>

record request_args =
  service :: jsval  version :: jsval  "method" :: jsval  path :: jsval
  query :: jsval  data :: jsval  authOptions :: jsval

text \<open>
  \<^verbatim>\<open>AV\<close> after \<^verbatim>\<open>AV._appRouter.refresh()\<close>, which touches the table of server URLs only.
\<close>

definition refreshed :: "env \<Rightarrow> av \<Rightarrow> av" where
  "refreshed E AV = AV\<lparr>config := (config AV)\<lparr>serverURLs := refresh E (serverURLs (config AV))\<rparr>\<rparr>"

text \<open>
  \<^verbatim>\<open>request({ service, version, method, path, query, data = {}, authOptions })\<close>: the
  events of the call and either the exception it throws or the final state of the
  promise it returns. \<^verbatim>\<open>.catch(handleError)\<close> is attached to the promise of \<^verbatim>\<open>ajax\<close>.
\<close>

definition request ::
  "env \<Rightarrow> av \<Rightarrow> request_args \<Rightarrow> event list \<times> (jsval, exn) promise completion" where
  "request E AV r =
     (if \<not> (truthy (applicationId AV) \<and> (truthy (applicationKey AV) \<or> truthy (masterKey AV)))
      then ([], Throws (Error ''Not initialized''))
      else
        let AV' = refreshed E AV
        in case createApiUrl AV' (service r) (version r) (path r) of
             Throws e \<Rightarrow> ([Refresh], Throws e)
           | Returns url \<Rightarrow>
               (case setHeaders E AV' (authOptions r) Undefined of
                  (evs, Throws e) \<Rightarrow> (Refresh # evs, Throws e)
                | (evs, Returns Pending) \<Rightarrow> (Refresh # evs, Returns Pending)
                | (evs, Returns (Rejected e)) \<Rightarrow> (Refresh # evs, Returns (Rejected e))
                | (evs, Returns (Fulfilled headers)) \<Rightarrow>
                    (let args = \<lparr>ajax_method = method r, ajax_url = url, ajax_query = query r,
                                 ajax_data = default_param (data r) (Obj []), ajax_headers = headers\<rparr>
                     in (Refresh # evs @ [Ajax args],
                         Returns (case ajax E args of
                                    Fulfilled v \<Rightarrow> Fulfilled v
                                  | Rejected raw \<Rightarrow> handleError (JSON_parse E) raw
                                  | Pending \<Rightarrow> Pending)))))"

section \<open>The legacy route adapter\<close>

text \<open>Lines 140 to 143 of \<^verbatim>\<open>_request\<close>: the path from the segments that are truthy.\<close>

definition legacy_path :: "jsval \<Rightarrow> jsval \<Rightarrow> jsval \<Rightarrow> string" where
  "legacy_path route className objectId =
     (if truthy route then ''/'' @ toString route else [])
     @ (if truthy className then ''/'' @ toString className else [])
     @ (if truthy objectId then ''/'' @ toString objectId else [])"

text \<open>
  Lines 139 to 150 of \<^verbatim>\<open>_request(route, className, objectId, method, data = {},
  authOptions, query)\<close>: the exception thrown there, or the object handed to \<^verbatim>\<open>request\<close>.
  A truthy \<^verbatim>\<open>method\<close> that is not a string has no \<^verbatim>\<open>toLowerCase\<close>.
\<close>

definition legacy_request_args ::
  "jsval \<Rightarrow> jsval \<Rightarrow> jsval \<Rightarrow> jsval \<Rightarrow> jsval \<Rightarrow> jsval \<Rightarrow> jsval \<Rightarrow> request_args completion" where
  "legacy_request_args route className objectId method0 data0 authOptions0 query0 =
     (let data1 = default_param data0 (Obj []);
          path1 = legacy_path route className objectId
      in if truthy data1 \<and> truthy (getp data1 ''_fetchWhenSave'')
         then Throws (Error ''_fetchWhenSave should be in the query'')
         else if truthy data1 \<and> truthy (getp data1 ''_where'')
         then Throws (Error ''_where should be in the query'')
         else if truthy method0 then
           (case method0 of
              Str m \<Rightarrow>
                if toLowerCase m = ''get''
                then Returns \<lparr>service = Undefined, version = Undefined, method = method0,
                              path = Str path1, query = extend_obj [] [query0, data1], data = Null,
                              authOptions = authOptions0\<rparr>
                else Returns \<lparr>service = Undefined, version = Undefined, method = method0,
                              path = Str path1, query = query0, data = data1,
                              authOptions = authOptions0\<rparr>
            | _ \<Rightarrow> Throws TypeError)
         else Returns \<lparr>service = Undefined, version = Undefined, method = method0,
                       path = Str path1, query = query0, data = data1,
                       authOptions = authOptions0\<rparr>)"

text \<open>\<^verbatim>\<open>_request\<close>, the legacy entry point: lines 139 to 150, then \<^verbatim>\<open>request\<close>.\<close>

definition legacy_request ::
  "env \<Rightarrow> av \<Rightarrow> jsval \<Rightarrow> jsval \<Rightarrow> jsval \<Rightarrow> jsval \<Rightarrow> jsval \<Rightarrow> jsval \<Rightarrow> jsval
     \<Rightarrow> event list \<times> (jsval, exn) promise completion" where
  "legacy_request E AV route className objectId method0 data0 authOptions0 query0 =
     (case legacy_request_args route className objectId method0 data0 authOptions0 query0 of
        Throws e \<Rightarrow> ([], Throws e)
      | Returns r \<Rightarrow> request E AV r)"

section \<open>The precedence of the master key, as specified\<close>

text \<open>
  The specification describes the decision to use the master key on two values that are
  each unset, true or false: the override of the call wins when it is set, then the
  global default when it is set, and otherwise the master key is not used. A JavaScript
  value is set in this sense when it is a boolean.
\<close>

fun tri_state :: "jsval \<Rightarrow> bool option" where
  "tri_state (Bool b) = Some b"
| "tri_state v = None"

fun spec_useElevated :: "bool option \<Rightarrow> bool option \<Rightarrow> bool" where
  "spec_useElevated (Some b) g = b"
| "spec_useElevated None (Some b) = b"
| "spec_useElevated None None = False"

section \<open>A concrete setting for the examples\<close>

text \<open>
  The collaborators are parameters of every theorem below. The examples run the code
  against these: a \<^verbatim>\<open>JSON.parse\<close> restricted to the two bodies \<^verbatim>\<open>null\<close> and
  \<^verbatim>\<open>{"code":1,"error":"x"}\<close> (every other body used in an example is not JSON), a helper
  that reads the session token off \<^verbatim>\<open>authOptions.sessionToken\<close>, no logged-in user, a router that leaves the table as it
  is, and a transport that succeeds with an empty object.
\<close>

definition example_JSON_parse :: "jsval \<Rightarrow> jsval option" where
  "example_JSON_parse v =
     (if v = Str ''null'' then Some Null
      else if v = Str ''{\"code\":1,\"error\":\"x\"}''
      then Some (Obj [(''code'', Num 1), (''error'', Str ''x'')])
      else None)"

definition example_getSessionToken :: "jsval \<Rightarrow> jsval" where
  "example_getSessionToken ao = getp ao ''sessionToken''"

definition example_ajax :: "ajax_args \<Rightarrow> (jsval, jsval) promise" where
  "example_ajax args = Fulfilled (Obj [])"

definition example_env :: env where
  "example_env =
     \<lparr>md5 = toString, now = 1500000000000, CLIENT_PLATFORM = Undefined,
      JSON_parse = example_JSON_parse, getSessionToken = example_getSessionToken,
      currentAsync = Fulfilled Null, refresh = id, ajax = example_ajax\<rparr>"

definition example_av :: av where
  "example_av =
     \<lparr>applicationId = Str ''app-id'', applicationKey = Str ''app-key'', masterKey = Undefined,
      hookKey = Undefined,
      config = \<lparr>useMasterKey = Undefined, production = Null,
                serverURLs = Some [(''api'', Str ''https://x.example/'')],
                userAgent = Str ''sdk'', disableCurrentUser = Bool False\<rparr>\<rparr>"

definition example_args :: request_args where
  "example_args =
     \<lparr>service = Undefined, version = Undefined, method = Str ''GET'', path = Str ''/things'',
      query = Undefined, data = Undefined, authOptions = Undefined\<rparr>"

section \<open>The dispatcher refuses to run without credentials\<close>

text \<open>
  C1. When the application identifier is falsy (unset, that is \<^verbatim>\<open>undefined\<close> or \<^verbatim>\<open>null\<close>,
  or the empty string), or the application key and the master key both are, \<^verbatim>\<open>request\<close>
  throws \<^verbatim>\<open>Error('Not initialized')\<close> itself, synchronously: it returns no promise, and
  no event has happened by then, neither the refresh of the router nor a query of the
  current user nor a call of the transport.
\<close>

theorem request_not_initialized:
  "\<not> truthy (applicationId AV) \<or> (\<not> truthy (applicationKey AV) \<and> \<not> truthy (masterKey AV))
   \<Longrightarrow> request E AV r = ([], Throws (Error ''Not initialized''))"
  by (auto simp: request_def)

theorem request_not_initialized_witness:
  "\<not> truthy (applicationId (example_av\<lparr>applicationId := Undefined\<rparr>))
   \<and> request example_env (example_av\<lparr>applicationId := Undefined\<rparr>) example_args
       = ([], Throws (Error ''Not initialized''))"
  using request_not_initialized [of "example_av\<lparr>applicationId := Undefined\<rparr>" example_env example_args]
  by simp

section \<open>What the signer returns\<close>

subsection \<open>Decimal numerals determine the number\<close>

lemma digit_char_inj: "n < 10 \<Longrightarrow> m < 10 \<Longrightarrow> digit_char n = digit_char m \<Longrightarrow> n = m"
proof -
  assume a: "n < 10" "m < 10" "digit_char n = digit_char m"
  have d: "distinct ''0123456789''" by simp
  have l: "length ''0123456789'' = 10" by simp
  from a d l show "n = m"
    unfolding digit_char_def by (metis nth_eq_iff_index_eq)
qed

lemma digit_char_mem: "n < 10 \<Longrightarrow> digit_char n \<in> set ''0123456789''"
  unfolding digit_char_def by (rule nth_mem) simp

lemma dec_nat_digits: "set (dec_nat n) \<subseteq> set ''0123456789''"
proof (induction n rule: dec_nat.induct)
  case (1 n)
  show ?case
  proof (cases "n < 10")
    case True
    then show ?thesis using digit_char_mem [of n] by (subst dec_nat.simps) simp
  next
    case False
    then show ?thesis using 1 digit_char_mem [of "n mod 10"]
      by (subst dec_nat.simps) simp
  qed
qed

lemma dec_nat_nonempty: "dec_nat n \<noteq> []"
  by (subst dec_nat.simps) simp



lemma dec_nat_small: "n < 10 \<Longrightarrow> dec_nat n = [digit_char n]"
  by (subst dec_nat.simps) simp

lemma dec_nat_big: "\<not> n < 10 \<Longrightarrow> dec_nat n = dec_nat (n div 10) @ [digit_char (n mod 10)]"
  by (subst dec_nat.simps) simp

lemma dec_nat_inj: "dec_nat n = dec_nat m \<Longrightarrow> n = m"
proof (induction n arbitrary: m rule: dec_nat.induct)
  case (1 n)
  note eq = \<open>dec_nat n = dec_nat m\<close>
  show ?case
  proof (cases "n < 10")
    case n: True
    show ?thesis
    proof (cases "m < 10")
      case True
      from eq have "digit_char n = digit_char m"
        unfolding dec_nat_small [OF n] dec_nat_small [OF True] by simp
      with n True show ?thesis by (rule digit_char_inj)
    next
      case False
      from eq have "[digit_char n] = dec_nat (m div 10) @ [digit_char (m mod 10)]"
        unfolding dec_nat_small [OF n] dec_nat_big [OF False] .
      with dec_nat_nonempty [of "m div 10"] show ?thesis by simp
    qed
  next
    case n: False
    show ?thesis
    proof (cases "m < 10")
      case True
      from eq have "dec_nat (n div 10) @ [digit_char (n mod 10)] = [digit_char m]"
        unfolding dec_nat_small [OF True] dec_nat_big [OF n] .
      with dec_nat_nonempty [of "n div 10"] show ?thesis by simp
    next
      case False
      from eq have "dec_nat (n div 10) @ [digit_char (n mod 10)]
                    = dec_nat (m div 10) @ [digit_char (m mod 10)]"
        unfolding dec_nat_big [OF False] dec_nat_big [OF n] .
      then have e: "dec_nat (n div 10) = dec_nat (m div 10)"
        and d: "digit_char (n mod 10) = digit_char (m mod 10)"
        by simp_all
      from 1(1) [OF n e] have q: "n div 10 = m div 10" .
      have "n mod 10 < 10" "m mod 10 < 10" by simp_all
      then have r: "n mod 10 = m mod 10" using d by (rule digit_char_inj)
      have "n = 10 * (n div 10) + n mod 10" by simp
      also have "\<dots> = 10 * (m div 10) + m mod 10" using q r by simp
      also have "\<dots> = m" by simp
      finally show ?thesis .
    qed
  qed
qed


lemma dec_nat_no_minus: "dec_nat n \<noteq> CHR ''-'' # ds"
proof
  assume "dec_nat n = CHR ''-'' # ds"
  then have "CHR ''-'' \<in> set (dec_nat n)" by simp
  with dec_nat_digits [of n] show False by auto
qed

lemma dec_int_inj: "dec_int i = dec_int j \<Longrightarrow> i = j"
proof -
  assume e: "dec_int i = dec_int j"
  show "i = j"
  proof (cases "i < 0")
    case i: True
    show ?thesis
    proof (cases "j < 0")
      case True
      with i e have "dec_nat (nat (- i)) = dec_nat (nat (- j))" by (simp add: dec_int_def)
      then have "nat (- i) = nat (- j)" by (rule dec_nat_inj)
      with i True show ?thesis by simp
    next
      case False
      with i e have "dec_nat (nat j) = CHR ''-'' # dec_nat (nat (- i))" by (simp add: dec_int_def)
      then show ?thesis using dec_nat_no_minus by blast
    qed
  next
    case i: False
    show ?thesis
    proof (cases "j < 0")
      case True
      with i e have "dec_nat (nat i) = CHR ''-'' # dec_nat (nat (- j))" by (simp add: dec_int_def)
      then show ?thesis using dec_nat_no_minus by blast
    next
      case False
      with i e have "dec_nat (nat i) = dec_nat (nat j)" by (simp add: dec_int_def)
      then have "nat i = nat j" by (rule dec_nat_inj)
      with i False show ?thesis by simp
    qed
  qed
qed

lemma dec_int_no_comma: "CHR '','' \<notin> set (dec_int i)"
  using dec_nat_digits [of "nat i"] dec_nat_digits [of "nat (- i)"]
  by (auto simp: dec_int_def)

lemma last_field_eq:
  assumes "c \<notin> set a" and "c \<notin> set b" and "x @ c # a = y @ c # b"
  shows "a = b"
proof -
  have "takeWhile (\<lambda>d. d \<noteq> c) (rev (x @ c # a)) = rev a"
    using assms(1) by (auto simp: takeWhile_tail)
  moreover have "takeWhile (\<lambda>d. d \<noteq> c) (rev (y @ c # b)) = rev b"
    using assms(2) by (auto simp: takeWhile_tail)
  ultimately have "rev a = rev b" using assms(3) by simp
  then show ?thesis by simp
qed

lemma sign_time_inj: "sign h t1 k e = sign h t2 k e \<Longrightarrow> t1 = t2"
proof -
  assume s: "sign h t1 k e = sign h t2 k e"
  have "h (num_plus t1 k) @ CHR '','' # dec_int t1 = h (num_plus t2 k) @ CHR '','' # dec_int t2"
    using s by (cases "truthy e") (simp_all add: sign_def Let_def)
  then have "dec_int t1 = dec_int t2"
    by (rule last_field_eq [OF dec_int_no_comma dec_int_no_comma])
  then show ?thesis by (rule dec_int_inj)
qed

text \<open>
  C10. For a secret key (a string) and an elevated flag, \<^verbatim>\<open>sign\<close> returns the digest of
  the clock reading \<open>t\<close> (in decimal) followed by the secret, then a comma and \<open>t\<close>, and the
  suffix \<^verbatim>\<open>,master\<close> exactly when the flag is set. The output is a function of the digest
  function, \<open>t\<close>, the secret and the flag, so equal inputs give equal outputs; and two
  readings of the clock give the same output only if they are the same reading. The latter
  needs no assumption on the digest: the reading is the last field of the output (before
  the suffix), and a decimal numeral contains no comma.
\<close>

theorem sign_format:
  "sign h t (Str secret) (Bool elevated)
     = h (Str (dec_int t @ secret)) @ '','' @ dec_int t @ (if elevated then '',master'' else [])
   \<and> (sign h t1 (Str secret) (Bool elevated) = sign h t2 (Str secret) (Bool elevated) \<longleftrightarrow> t1 = t2)"
proof
  show "sign h t (Str secret) (Bool elevated)
     = h (Str (dec_int t @ secret)) @ '','' @ dec_int t @ (if elevated then '',master'' else [])"
    by (simp add: sign_def Let_def)
  show "sign h t1 (Str secret) (Bool elevated) = sign h t2 (Str secret) (Bool elevated) \<longleftrightarrow> t1 = t2"
    using sign_time_inj [of h t1 "Str secret" "Bool elevated" t2] by blast
qed


text \<open>The clock reading used in the examples.\<close>

lemma dec_int_example: "dec_int 1500000000000 = ''1500000000000''"
  by (simp add: dec_int_def dec_nat.simps digit_char_def)

theorem sign_format_witness:
  "sign toString 1500000000000 (Str ''secret'') (Bool True)
     = ''1500000000000secret,1500000000000,master''
   \<and> sign toString 1500000000000 (Str ''secret'') (Bool True)
       \<noteq> sign toString 1500000000001 (Str ''secret'') (Bool True)"
proof -
  note f = sign_format [of toString 1500000000000 "''secret''" True 1500000000000 1500000000001]
  from f have a: "sign toString 1500000000000 (Str ''secret'') (Bool True)
                   = ''1500000000000secret,1500000000000,master''"
    by (simp add: dec_int_example)
  from f have "(sign toString 1500000000000 (Str ''secret'') (Bool True)
                 = sign toString 1500000000001 (Str ''secret'') (Bool True))
               \<longleftrightarrow> (1500000000000::int) = 1500000000001" by (rule conjunct2)
  then have b: "sign toString 1500000000000 (Str ''secret'') (Bool True)
                 \<noteq> sign toString 1500000000001 (Str ''secret'') (Bool True)" by simp
  from a b show ?thesis by (rule conjI)
qed

section \<open>The decision to use the master key\<close>

text \<open>
  C3. The decision of \<^verbatim>\<open>setHeaders\<close> to use the master key is the precedence of the
  specification on the two tri-state values: \<^verbatim>\<open>authOptions.useMasterKey\<close> is used when it is a
  boolean (an explicit \<^verbatim>\<open>false\<close> wins over a global \<^verbatim>\<open>true\<close>), otherwise
  \<^verbatim>\<open>AV._config.useMasterKey\<close> when that is a boolean, and otherwise the master key is not used.
\<close>

theorem useMasterKey_precedence:
  "truthy (resolve_useMasterKey AV ao)
     = spec_useElevated (tri_state (getp ao ''useMasterKey'')) (tri_state (useMasterKey (config AV)))"
  by (cases "getp ao ''useMasterKey''"; cases "useMasterKey (config AV)")
     (simp_all add: resolve_useMasterKey_def)

section \<open>The headers of a call\<close>

subsection \<open>The synchronous part\<close>

lemma syncHeaders_key:
  "map_of (snd (syncHeaders E AV ao Undefined)) ''X-LC-Key''
     = Some (if truthy (resolve_useMasterKey AV ao) \<and> truthy (masterKey AV)
             then Str (toString (masterKey AV) @ '',master'') else applicationKey AV)"
  by (simp add: syncHeaders_def setAppId_def Let_def update_conv' split_def)

lemma syncHeaders_sign: "map_of (snd (syncHeaders E AV ao Undefined)) ''X-LC-Sign'' = None"
  by (simp add: syncHeaders_def setAppId_def Let_def update_conv' split_def)

lemma syncHeaders_session: "map_of (snd (syncHeaders E AV ao sk)) ''X-LC-Session'' = None"
  by (simp add: syncHeaders_def setAppId_def Let_def update_conv' split_def)

lemma syncHeaders_events:
  "fst (syncHeaders E AV ao sk) = [] \<or>
   fst (syncHeaders E AV ao sk) = [Warn ''masterKey is not set, fall back to use appKey'']"
  by (simp add: syncHeaders_def Let_def split_def)

lemma syncHeaders_no_query: "CurrentAsync \<notin> set (fst (syncHeaders E AV ao sk))"
  using syncHeaders_events [of E AV ao sk] by auto

lemma syncHeaders_no_ajax: "Ajax a \<notin> set (fst (syncHeaders E AV ao sk))"
  using syncHeaders_events [of E AV ao sk] by auto

subsection \<open>The promise of the headers\<close>

lemma setHeaders_cases:
  assumes "default_param ao0 (Obj []) = ao" and "ao \<noteq> Null"
  shows "setHeaders E AV ao0 sk =
     (if truthy (getSessionToken E ao)
      then (fst (syncHeaders E AV ao sk),
            Returns (Fulfilled (AList.update ''X-LC-Session'' (getSessionToken E ao)
                                  (snd (syncHeaders E AV ao sk)))))
      else if \<not> truthy (disableCurrentUser (config AV))
      then (fst (syncHeaders E AV ao sk) @ [CurrentAsync],
            Returns (case currentAsync E of
                       Fulfilled u \<Rightarrow>
                         Fulfilled (if truthy u \<and> truthy (getp u ''_sessionToken'')
                                    then AList.update ''X-LC-Session'' (getp u ''_sessionToken'')
                                           (snd (syncHeaders E AV ao sk))
                                    else snd (syncHeaders E AV ao sk))
                     | Rejected e \<Rightarrow> Rejected e
                     | Pending \<Rightarrow> Pending))
      else (fst (syncHeaders E AV ao sk), Returns (Fulfilled (snd (syncHeaders E AV ao sk)))))"
proof -
  from assms have "\<not> nullish ao" by (cases ao) (auto simp: default_param_def split: if_splits)
  with assms(1) show ?thesis
    by (simp add: setHeaders_def Let_def split_def)
qed

lemma setHeaders_Null:
  "default_param ao0 (Obj []) = Null \<Longrightarrow> setHeaders E AV ao0 sk = ([], Throws TypeError)"
  by (simp add: setHeaders_def Let_def)

lemma setHeaders_other_headers:
  assumes "setHeaders E AV ao0 sk = (evs, Returns (Fulfilled hs))" and "k \<noteq> ''X-LC-Session''"
  shows "map_of hs k = map_of (snd (syncHeaders E AV (default_param ao0 (Obj [])) sk)) k"
proof (cases "default_param ao0 (Obj []) = Null")
  case True
  with assms(1) show ?thesis by (simp add: setHeaders_Null)
next
  case False
  from assms show ?thesis
    unfolding setHeaders_cases [OF refl False]
    by (auto simp: update_conv' split: if_splits promise.splits)
qed

lemma setHeaders_no_ajax:
  assumes "setHeaders E AV ao0 sk = (evs, res)"
  shows "Ajax a \<notin> set evs"
proof (cases "default_param ao0 (Obj []) = Null")
  case True
  with assms show ?thesis by (simp add: setHeaders_Null)
next
  case False
  from assms syncHeaders_no_ajax [of a E AV "default_param ao0 (Obj [])" sk] show ?thesis
    unfolding setHeaders_cases [OF refl False]
    by (auto split: if_splits)
qed

subsection \<open>What the transport is called with\<close>

lemma refreshed_simps [simp]:
  "applicationId (refreshed E AV) = applicationId AV"
  "applicationKey (refreshed E AV) = applicationKey AV"
  "masterKey (refreshed E AV) = masterKey AV"
  "resolve_useMasterKey (refreshed E AV) ao = resolve_useMasterKey AV ao"
  by (simp_all add: refreshed_def resolve_useMasterKey_def)

lemma request_ajax:
  assumes "request E AV r = (evs, res)" and "Ajax a \<in> set evs"
  shows "\<exists>evs' url hs.
           createApiUrl (refreshed E AV) (service r) (version r) (path r) = Returns url
           \<and> setHeaders E (refreshed E AV) (authOptions r) Undefined = (evs', Returns (Fulfilled hs))
           \<and> a = \<lparr>ajax_method = method r, ajax_url = url, ajax_query = query r,
                    ajax_data = default_param (data r) (Obj []), ajax_headers = hs\<rparr>"
proof (cases "createApiUrl (refreshed E AV) (service r) (version r) (path r)")
  case (Throws e)
  with assms show ?thesis by (auto simp: request_def Let_def split: if_splits)
next
  case (Returns url)
  obtain evs' c where sh: "setHeaders E (refreshed E AV) (authOptions r) Undefined = (evs', c)"
    by (cases "setHeaders E (refreshed E AV) (authOptions r) Undefined")
  have na: "Ajax a \<notin> set evs'" using sh by (rule setHeaders_no_ajax)
  from assms Returns sh na show ?thesis
    by (auto simp: request_def Let_def split: if_splits completion.splits promise.splits)
qed

lemma example_request:
  "request example_env example_av example_args
     = ([Refresh, CurrentAsync,
         Ajax \<lparr>ajax_method = Str ''GET'', ajax_url = ''https://x.example/1.1/things'',
               ajax_query = Undefined, ajax_data = Obj [],
               ajax_headers = [(''X-LC-Id'', Str ''app-id''),
                               (''Content-Type'', Str ''application/json;charset=UTF-8''),
                               (''X-LC-Key'', Str ''app-key''), (''User-Agent'', Str ''sdk'')]\<rparr>],
        Returns (Fulfilled (Obj [])))"
  by (simp add: request_def refreshed_def example_env_def example_av_def example_args_def
        createApiUrl_def lookup_member_def default_param_def setHeaders_def syncHeaders_def
        setAppId_def
        resolve_useMasterKey_def example_getSessionToken_def example_ajax_def Let_def)

text \<open>
  C4. \<^verbatim>\<open>request\<close> calls \<^verbatim>\<open>setHeaders\<close> without the flag \<^verbatim>\<open>signKey\<close>. So whenever \<^verbatim>\<open>request\<close> calls the
  transport, the headers it passes hold \<^verbatim>\<open>X-LC-Key\<close>, with the master key followed by
  \<^verbatim>\<open>,master\<close> when the master key is asked for and set and with the application key
  otherwise, and they do not hold \<^verbatim>\<open>X-LC-Sign\<close>.
\<close>

theorem request_sends_plain_key:
  assumes "request E AV r = (evs, res)" and "Ajax a \<in> set evs"
  shows "map_of (ajax_headers a) ''X-LC-Key''
           = Some (if truthy (resolve_useMasterKey AV (default_param (authOptions r) (Obj [])))
                      \<and> truthy (masterKey AV)
                   then Str (toString (masterKey AV) @ '',master'') else applicationKey AV)
         \<and> map_of (ajax_headers a) ''X-LC-Sign'' = None"
proof -
  from request_ajax [OF assms] obtain evs' url hs where
    sh: "setHeaders E (refreshed E AV) (authOptions r) Undefined = (evs', Returns (Fulfilled hs))"
    and a: "ajax_headers a = hs" by auto
  have "map_of hs ''X-LC-Key''
          = map_of (snd (syncHeaders E (refreshed E AV) (default_param (authOptions r) (Obj [])) Undefined)) ''X-LC-Key''"
    using sh by (rule setHeaders_other_headers) simp
  moreover have "map_of hs ''X-LC-Sign''
          = map_of (snd (syncHeaders E (refreshed E AV) (default_param (authOptions r) (Obj [])) Undefined)) ''X-LC-Sign''"
    using sh by (rule setHeaders_other_headers) simp
  ultimately show ?thesis
    unfolding a by (simp only: syncHeaders_key syncHeaders_sign refreshed_simps)
qed

theorem request_sends_plain_key_witness:
  "request example_env example_av example_args
     = ([Refresh, CurrentAsync,
         Ajax \<lparr>ajax_method = Str ''GET'', ajax_url = ''https://x.example/1.1/things'',
               ajax_query = Undefined, ajax_data = Obj [],
               ajax_headers = [(''X-LC-Id'', Str ''app-id''),
                               (''Content-Type'', Str ''application/json;charset=UTF-8''),
                               (''X-LC-Key'', Str ''app-key''), (''User-Agent'', Str ''sdk'')]\<rparr>],
        Returns (Fulfilled (Obj [])))
   \<and> map_of [(''X-LC-Id'', Str ''app-id''),
              (''Content-Type'', Str ''application/json;charset=UTF-8''),
              (''X-LC-Key'', Str ''app-key''), (''User-Agent'', Str ''sdk'')] ''X-LC-Key''
       = Some (Str ''app-key'')
   \<and> map_of [(''X-LC-Id'', Str ''app-id''),
              (''Content-Type'', Str ''application/json;charset=UTF-8''),
              (''X-LC-Key'', Str ''app-key''), (''User-Agent'', Str ''sdk'')] ''X-LC-Sign'' = None"
proof -
  let ?a = "\<lparr>ajax_method = Str ''GET'', ajax_url = ''https://x.example/1.1/things'',
               ajax_query = Undefined, ajax_data = Obj [],
               ajax_headers = [(''X-LC-Id'', Str ''app-id''),
                               (''Content-Type'', Str ''application/json;charset=UTF-8''),
                               (''X-LC-Key'', Str ''app-key''), (''User-Agent'', Str ''sdk'')]\<rparr>"
  have m: "Ajax ?a \<in> set [Refresh, CurrentAsync, Ajax ?a]" by simp
  have k: "resolve_useMasterKey example_av (default_param (authOptions example_args) (Obj [])) = Bool False"
    by (simp add: resolve_useMasterKey_def example_av_def example_args_def default_param_def)
  from request_sends_plain_key [OF example_request m]
  have "map_of (ajax_headers ?a) ''X-LC-Key'' = Some (applicationKey example_av)
        \<and> map_of (ajax_headers ?a) ''X-LC-Sign'' = None"
    unfolding k by simp
  then show ?thesis
    using example_request by (simp add: example_av_def)
qed

section \<open>The session header\<close>

text \<open>
  C9. In \<^verbatim>\<open>setHeaders\<close> (for an \<^verbatim>\<open>authOptions\<close> that is not \<^verbatim>\<open>null\<close>): when the helper
  \<^verbatim>\<open>getSessionToken\<close> finds a non-empty session token in \<^verbatim>\<open>authOptions\<close>, that token is the
  session header and the provider of the current user is not asked. Otherwise, when
  \<^verbatim>\<open>disableCurrentUser\<close> is set, the provider is not asked and the headers are the synchronous
  ones. Otherwise the provider is asked exactly once, and the session header is there exactly
  when the provider yields a user with a non-empty session token, with that token. In each
  case every header other than \<^verbatim>\<open>X-LC-Session\<close> is as the synchronous part computed it.
\<close>

theorem setHeaders_session:
  assumes "default_param ao0 (Obj []) = ao" and "ao \<noteq> Null"
      and "setHeaders E AV ao0 sk = (evs, res)"
  shows "(truthy (getSessionToken E ao) \<longrightarrow>
            count_list evs CurrentAsync = 0
            \<and> (\<exists>hs. res = Returns (Fulfilled hs)
                   \<and> map_of hs ''X-LC-Session'' = Some (getSessionToken E ao)
                   \<and> (\<forall>k. k \<noteq> ''X-LC-Session'' \<longrightarrow>
                          map_of hs k = map_of (snd (syncHeaders E AV ao sk)) k)))
       \<and> (\<not> truthy (getSessionToken E ao) \<and> truthy (disableCurrentUser (config AV)) \<longrightarrow>
            count_list evs CurrentAsync = 0
            \<and> res = Returns (Fulfilled (snd (syncHeaders E AV ao sk))))
       \<and> (\<not> truthy (getSessionToken E ao) \<and> \<not> truthy (disableCurrentUser (config AV)) \<longrightarrow>
            count_list evs CurrentAsync = 1
            \<and> (case currentAsync E of
                  Fulfilled u \<Rightarrow>
                    (\<exists>hs. res = Returns (Fulfilled hs)
                       \<and> map_of hs ''X-LC-Session''
                           = (if truthy u \<and> truthy (getp u ''_sessionToken'')
                              then Some (getp u ''_sessionToken'') else None)
                       \<and> (\<forall>k. k \<noteq> ''X-LC-Session'' \<longrightarrow>
                              map_of hs k = map_of (snd (syncHeaders E AV ao sk)) k))
                | Rejected e \<Rightarrow> res = Returns (Rejected e)
                | Pending \<Rightarrow> res = Returns Pending))"
proof -
  have c0: "count_list (fst (syncHeaders E AV ao sk)) CurrentAsync = 0"
    using syncHeaders_no_query [of E AV ao sk] by (simp add: count_list_0_iff)
  note sh = assms(3) [unfolded setHeaders_cases [OF assms(1,2)]]
  show ?thesis
  proof (intro conjI impI)
    assume t: "truthy (getSessionToken E ao)"
    with sh show "count_list evs CurrentAsync = 0" using c0 by auto
    from t sh show "\<exists>hs. res = Returns (Fulfilled hs)
                   \<and> map_of hs ''X-LC-Session'' = Some (getSessionToken E ao)
                   \<and> (\<forall>k. k \<noteq> ''X-LC-Session'' \<longrightarrow>
                          map_of hs k = map_of (snd (syncHeaders E AV ao sk)) k)"
      by (auto simp: update_conv')
  next
    assume t: "\<not> truthy (getSessionToken E ao) \<and> truthy (disableCurrentUser (config AV))"
    with sh show "count_list evs CurrentAsync = 0" using c0 by auto
    from t sh show "res = Returns (Fulfilled (snd (syncHeaders E AV ao sk)))" by auto
  next
    assume t: "\<not> truthy (getSessionToken E ao) \<and> \<not> truthy (disableCurrentUser (config AV))"
    with sh show "count_list evs CurrentAsync = 1" using c0 by auto
    from t sh show "case currentAsync E of
                  Fulfilled u \<Rightarrow>
                    (\<exists>hs. res = Returns (Fulfilled hs)
                       \<and> map_of hs ''X-LC-Session''
                           = (if truthy u \<and> truthy (getp u ''_sessionToken'')
                              then Some (getp u ''_sessionToken'') else None)
                       \<and> (\<forall>k. k \<noteq> ''X-LC-Session'' \<longrightarrow>
                              map_of hs k = map_of (snd (syncHeaders E AV ao sk)) k))
                | Rejected e \<Rightarrow> res = Returns (Rejected e)
                | Pending \<Rightarrow> res = Returns Pending"
      by (auto simp: update_conv' syncHeaders_session split: promise.splits)
  qed
qed

lemma example_setHeaders_token:
  "setHeaders example_env example_av (Obj [(''sessionToken'', Str ''tok'')]) Undefined
     = ([], Returns (Fulfilled [(''X-LC-Id'', Str ''app-id''),
                                (''Content-Type'', Str ''application/json;charset=UTF-8''),
                                (''X-LC-Key'', Str ''app-key''), (''User-Agent'', Str ''sdk''),
                                (''X-LC-Session'', Str ''tok'')]))"
  by (simp add: example_env_def example_av_def default_param_def setHeaders_def syncHeaders_def
        setAppId_def resolve_useMasterKey_def example_getSessionToken_def Let_def)

lemma example_setHeaders_user:
  "setHeaders (example_env\<lparr>currentAsync := Fulfilled (Obj [(''_sessionToken'', Str ''s1'')])\<rparr>)
     example_av Undefined Undefined
     = ([CurrentAsync],
        Returns (Fulfilled [(''X-LC-Id'', Str ''app-id''),
                            (''Content-Type'', Str ''application/json;charset=UTF-8''),
                            (''X-LC-Key'', Str ''app-key''), (''User-Agent'', Str ''sdk''),
                            (''X-LC-Session'', Str ''s1'')]))"
  by (simp add: example_env_def example_av_def default_param_def setHeaders_def syncHeaders_def
        setAppId_def resolve_useMasterKey_def example_getSessionToken_def Let_def)

theorem setHeaders_session_witness:
  "truthy (getSessionToken example_env (Obj [(''sessionToken'', Str ''tok'')]))
   \<and> setHeaders example_env example_av (Obj [(''sessionToken'', Str ''tok'')]) Undefined
       = ([], Returns (Fulfilled [(''X-LC-Id'', Str ''app-id''),
                                  (''Content-Type'', Str ''application/json;charset=UTF-8''),
                                  (''X-LC-Key'', Str ''app-key''), (''User-Agent'', Str ''sdk''),
                                  (''X-LC-Session'', Str ''tok'')]))
   \<and> count_list ([] :: event list) CurrentAsync = 0
   \<and> \<not> truthy (getSessionToken
                  (example_env\<lparr>currentAsync := Fulfilled (Obj [(''_sessionToken'', Str ''s1'')])\<rparr>)
                  (Obj []))
   \<and> \<not> truthy (disableCurrentUser (config example_av))
   \<and> setHeaders (example_env\<lparr>currentAsync := Fulfilled (Obj [(''_sessionToken'', Str ''s1'')])\<rparr>)
        example_av Undefined Undefined
       = ([CurrentAsync],
          Returns (Fulfilled [(''X-LC-Id'', Str ''app-id''),
                              (''Content-Type'', Str ''application/json;charset=UTF-8''),
                              (''X-LC-Key'', Str ''app-key''), (''User-Agent'', Str ''sdk''),
                              (''X-LC-Session'', Str ''s1'')]))
   \<and> count_list [CurrentAsync] CurrentAsync = 1"
proof -
  have d1: "default_param (Obj [(''sessionToken'', Str ''tok'')]) (Obj []) = Obj [(''sessionToken'', Str ''tok'')]"
    by (simp add: default_param_def)
  have d2: "default_param Undefined (Obj []) = Obj []" by (simp add: default_param_def)
  have t1: "truthy (getSessionToken example_env (Obj [(''sessionToken'', Str ''tok'')]))"
    by (simp add: example_env_def example_getSessionToken_def)
  have t2: "\<not> truthy (getSessionToken
                  (example_env\<lparr>currentAsync := Fulfilled (Obj [(''_sessionToken'', Str ''s1'')])\<rparr>)
                  (Obj []))"
    by (simp add: example_env_def example_getSessionToken_def)
  have t3: "\<not> truthy (disableCurrentUser (config example_av))" by (simp add: example_av_def)
  from setHeaders_session [OF d1 _ example_setHeaders_token] t1
  have c1: "count_list ([] :: event list) CurrentAsync = 0" by simp
  from setHeaders_session [OF d2 _ example_setHeaders_user] t2 t3
  have c2: "count_list [CurrentAsync] CurrentAsync = 1" by simp
  from t1 t2 t3 c1 c2 example_setHeaders_token example_setHeaders_user show ?thesis
    by (intro conjI)
qed

section \<open>The URL of a call\<close>

text \<open>
  A service named like a member that every object inherits, and without an entry of its
  own in the table, is found all the same: the call ends in a TypeError.
\<close>

lemma createApiUrl_inherited:
  assumes "serverURLs (config AV) = Some tbl"
      and "s = toString (default_param service0 (Str ''api''))"
      and "map_of tbl s = None" and "s \<in> set object_prototype_members"
  shows "createApiUrl AV service0 version0 path0 = Throws TypeError"
  using assms by (simp add: createApiUrl_def lookup_member_def Let_def)

text \<open>
  C8. (amended) For a table of server URLs, \<^verbatim>\<open>createApiUrl\<close> throws an error whose message
  ends in the name of the service (\<^verbatim>\<open>api\<close> when none is given) when the table has no entry for
  the service and the name is not that of a member that every object inherits
  (\<^verbatim>\<open>constructor\<close>, \<^verbatim>\<open>toString\<close> and the like), or when the entry is the empty string. When the
  entry is a non-empty string, the result is the entry, with a \<^verbatim>\<open>/\<close> added unless it ends in one
  already, followed by the version (\<^verbatim>\<open>1.1\<close> when none is given) and by the path as it is,
  nothing for an empty or missing path.
\<close>

theorem createApiUrl_result:
  assumes "serverURLs (config AV) = Some tbl"
      and "s = toString (default_param service0 (Str ''api''))"
      and "v = toString (default_param version0 (Str ''1.1''))"
  shows "((map_of tbl s = None \<and> s \<notin> set object_prototype_members)
          \<or> map_of tbl s = Some (Str []) \<longrightarrow>
            createApiUrl AV service0 version0 path0
              = Throws (Error (''undefined server URL for '' @ s)))
       \<and> (\<forall>base. map_of tbl s = Some (Str base) \<and> base \<noteq> [] \<longrightarrow>
            createApiUrl AV service0 version0 path0
              = Returns ((if last base = CHR ''/'' then base else base @ ''/'') @ v
                         @ (if truthy path0 then toString path0 else [])))"
  using assms by (auto simp: createApiUrl_def lookup_member_def Let_def)

theorem createApiUrl_result_witness:
  "serverURLs (config example_av) = Some [(''api'', Str ''https://x.example/'')]
   \<and> map_of [(''api'', Str ''https://x.example/'')] ''api'' = Some (Str ''https://x.example/'')
   \<and> createApiUrl example_av Undefined (Str ''1.1'') (Str ''/things'')
       = Returns ''https://x.example/1.1/things''
   \<and> map_of [(''api'', Str ''https://x.example/'')] ''push'' = None
   \<and> ''push'' \<notin> set object_prototype_members
   \<and> createApiUrl example_av (Str ''push'') Undefined Undefined
       = Throws (Error ''undefined server URL for push'')"
proof -
  have t: "serverURLs (config example_av) = Some [(''api'', Str ''https://x.example/'')]"
    by (simp add: example_av_def)
  have n: "''push'' \<notin> set object_prototype_members"
    by (simp add: object_prototype_members_def)
  from createApiUrl_result [OF t refl refl, of Undefined "Str ''1.1''" "Str ''/things''"]
  have a: "createApiUrl example_av Undefined (Str ''1.1'') (Str ''/things'')
             = Returns ''https://x.example/1.1/things''"
    by (simp add: default_param_def)
  from createApiUrl_result [OF t refl refl, of "Str ''push''" Undefined Undefined] n
  have b: "createApiUrl example_av (Str ''push'') Undefined Undefined
             = Throws (Error ''undefined server URL for push'')"
    by (simp add: default_param_def)
  from t n a b show ?thesis by simp
qed

text \<open>
  The specification lets the builder throw only when the table has no entry for the
  service. It throws for an entry that is the empty string as well.
\<close>

theorem createApiUrl_empty_entry:
  "map_of [(''api'', Str [])] ''api'' = Some (Str [])
   \<and> createApiUrl (example_av\<lparr>config := (config example_av)\<lparr>serverURLs := Some [(''api'', Str [])]\<rparr>\<rparr>)
        (Str ''api'') (Str ''1.1'') (Str ''/things'')
       = Throws (Error ''undefined server URL for api'')"
  by (simp add: createApiUrl_def lookup_member_def default_param_def Let_def)

text \<open>The service \<^verbatim>\<open>constructor\<close> against the table of the examples.\<close>

lemma createApiUrl_constructor:
  "createApiUrl example_av (Str ''constructor'') Undefined (Str ''/things'') = Throws TypeError"
  by (simp add: createApiUrl_def lookup_member_def object_prototype_members_def example_av_def
        default_param_def Let_def)

section \<open>The normal form of an error\<close>

lemma handleError_rejects: "\<exists>r. handleError P e = Rejected r"
  by (simp add: handleError_def split: completion.splits)

text \<open>
  C2. (amended) \<^verbatim>\<open>handleError\<close> never throws: the promise it returns is rejected. For a raw
  error that is not nullish, the first of three cases that applies decides: (1) when its
  \<^verbatim>\<open>response\<close> is truthy and has a truthy \<^verbatim>\<open>code\<close>, the \<^verbatim>\<open>code\<close> and \<^verbatim>\<open>error\<close> of the response are
  used; (2) else, when its \<^verbatim>\<open>responseText\<close> is truthy and parses as JSON to a value that is not
  \<^verbatim>\<open>null\<close>, the \<^verbatim>\<open>code\<close> and \<^verbatim>\<open>error\<close> of that value are used; (3) else, when there is no such text
  or it does not parse, the code is \<^verbatim>\<open>code || -1\<close> and the message is
  \<^verbatim>\<open>message || responseText\<close> of the raw error. The two values are passed on as they are.
\<close>

theorem handleError_tiers:
  "(\<exists>r. handleError P e = Rejected r)
   \<and> (\<not> nullish e \<and> truthy (getp e ''response'') \<and> truthy (getp (getp e ''response'') ''code'')
        \<longrightarrow> handleError P e = Rejected (AVError (getp (getp e ''response'') ''code'')
                                                  (getp (getp e ''response'') ''error'')))
   \<and> (\<not> nullish e
        \<and> \<not> (truthy (getp e ''response'') \<and> truthy (getp (getp e ''response'') ''code''))
        \<and> truthy (getp e ''responseText'') \<and> P (getp e ''responseText'') = Some j \<and> \<not> nullish j
        \<longrightarrow> handleError P e = Rejected (AVError (getp j ''code'') (getp j ''error'')))
   \<and> (\<not> nullish e
        \<and> \<not> (truthy (getp e ''response'') \<and> truthy (getp (getp e ''response'') ''code''))
        \<and> (\<not> truthy (getp e ''responseText'') \<or> P (getp e ''responseText'') = None)
        \<longrightarrow> handleError P e = Rejected (AVError (js_or (getp e ''code'') (Num (- 1)))
                                                  (js_or (getp e ''message'') (getp e ''responseText''))))"
proof (intro conjI impI)
  show "\<exists>r. handleError P e = Rejected r" by (rule handleError_rejects)
next
  assume "\<not> nullish e \<and> truthy (getp e ''response'') \<and> truthy (getp (getp e ''response'') ''code'')"
  moreover from this have "\<not> nullish (getp e ''response'')"
    by (cases "getp e ''response''") auto
  ultimately show "handleError P e = Rejected (AVError (getp (getp e ''response'') ''code'')
                                                  (getp (getp e ''response'') ''error''))"
    by (simp add: handleError_def handleError_executor_def Let_def)
next
  assume "\<not> nullish e
        \<and> \<not> (truthy (getp e ''response'') \<and> truthy (getp (getp e ''response'') ''code''))
        \<and> truthy (getp e ''responseText'') \<and> P (getp e ''responseText'') = Some j \<and> \<not> nullish j"
  then show "handleError P e = Rejected (AVError (getp j ''code'') (getp j ''error''))"
    by (auto simp: handleError_def handleError_executor_def Let_def)
next
  assume "\<not> nullish e
        \<and> \<not> (truthy (getp e ''response'') \<and> truthy (getp (getp e ''response'') ''code''))
        \<and> (\<not> truthy (getp e ''responseText'') \<or> P (getp e ''responseText'') = None)"
  then show "handleError P e = Rejected (AVError (js_or (getp e ''code'') (Num (- 1)))
                                                  (js_or (getp e ''message'') (getp e ''responseText'')))"
    by (auto simp: handleError_def handleError_executor_def Let_def)
qed

theorem handleError_tiers_witness:
  "handleError example_JSON_parse
     (Obj [(''response'', Obj [(''code'', Num 401), (''error'', Str ''Unauthorized.'')]),
           (''message'', Str ''m'')])
     = Rejected (AVError (Num 401) (Str ''Unauthorized.''))
   \<and> handleError example_JSON_parse (Obj [(''responseText'', Str ''{\"code\":1,\"error\":\"x\"}'')])
       = Rejected (AVError (Num 1) (Str ''x''))
   \<and> handleError example_JSON_parse (Obj [(''responseText'', Str ''<html>'')])
       = Rejected (AVError (Num (- 1)) (Str ''<html>''))
   \<and> handleError example_JSON_parse (Obj [(''message'', Str ''timeout'')])
       = Rejected (AVError (Num (- 1)) (Str ''timeout''))"
proof -
  note t1 = handleError_tiers [of example_JSON_parse
      "Obj [(''response'', Obj [(''code'', Num 401), (''error'', Str ''Unauthorized.'')]),
            (''message'', Str ''m'')]" Null]
  note t2 = handleError_tiers [of example_JSON_parse
      "Obj [(''responseText'', Str ''{\"code\":1,\"error\":\"x\"}'')]"
      "Obj [(''code'', Num 1), (''error'', Str ''x'')]"]
  note t3 = handleError_tiers [of example_JSON_parse "Obj [(''responseText'', Str ''<html>'')]" Null]
  note t4 = handleError_tiers [of example_JSON_parse "Obj [(''message'', Str ''timeout'')]" Null]
  from t1 have a: "handleError example_JSON_parse
     (Obj [(''response'', Obj [(''code'', Num 401), (''error'', Str ''Unauthorized.'')]),
           (''message'', Str ''m'')])
     = Rejected (AVError (Num 401) (Str ''Unauthorized.''))"
    by simp
  from t2 have b: "handleError example_JSON_parse (Obj [(''responseText'', Str ''{\"code\":1,\"error\":\"x\"}'')])
       = Rejected (AVError (Num 1) (Str ''x''))"
    by (simp add: example_JSON_parse_def)
  from t3 have c: "handleError example_JSON_parse (Obj [(''responseText'', Str ''<html>'')])
       = Rejected (AVError (Num (- 1)) (Str ''<html>''))"
    by (simp add: example_JSON_parse_def js_or_def)
  from t4 have d: "handleError example_JSON_parse (Obj [(''message'', Str ''timeout'')])
       = Rejected (AVError (Num (- 1)) (Str ''timeout''))"
    by (simp add: js_or_def)
  from a b c d show ?thesis by simp
qed

text \<open>
  The specification gives the result a numeric code always, and uses a nested response
  whenever it has a numeric code. A network error of Node carries a string as its code,
  which is passed on; and a nested response with the code \<^verbatim>\<open>0\<close> is passed over.
\<close>

theorem handleError_not_numeric:
  "handleError example_JSON_parse
     (Obj [(''code'', Str ''ECONNRESET''), (''message'', Str ''socket hang up'')])
     = Rejected (AVError (Str ''ECONNRESET'') (Str ''socket hang up''))
   \<and> handleError example_JSON_parse
       (Obj [(''response'', Obj [(''code'', Num 0), (''error'', Str ''zero'')]),
             (''message'', Str ''m'')])
       = Rejected (AVError (Num (- 1)) (Str ''m''))"
  by (simp add: handleError_def handleError_executor_def js_or_def Let_def)

section \<open>What the legacy route adapter does\<close>

subsection \<open>Merging objects\<close>

lemma map_of_fold_update:
  "map_of (fold (\<lambda>k obj. AList.update k (f k) obj) ks dst) k
     = (if k \<in> set ks then Some (f k) else map_of dst k)"
  by (induction ks arbitrary: dst) (auto simp: update_conv')

lemma getp_extend1_Obj:
  "getp (Obj (extend1 dst (Obj kvs))) k
     = (if k \<in> fst ` set kvs then getp (Obj kvs) k else getp (Obj dst) k)"
  by (simp add: map_of_fold_update)

lemma extend1_empty: "getp (Obj (extend1 [] q)) k = getp q k"
proof (cases q)
  case (Obj qs)
  show ?thesis
  proof (cases "k \<in> fst ` set qs")
    case True
    then show ?thesis unfolding Obj getp_extend1_Obj by simp
  next
    case False
    then have "map_of qs k = None" by (simp add: map_of_eq_None_iff)
    with False show ?thesis unfolding Obj getp_extend1_Obj by simp
  qed
qed simp_all

lemma getp_extend_obj:
  "getp (extend_obj [] [q, Obj ds]) k
     = (if k \<in> fst ` set ds then getp (Obj ds) k else getp q k)"
proof -
  have "extend_obj [] [q, Obj ds] = Obj (extend1 (extend1 [] q) (Obj ds))"
    by (simp add: extend_obj_def)
  then show ?thesis
    by (simp only: getp_extend1_Obj extend1_empty)
qed

subsection \<open>The spellings of the method GET\<close>

text \<open>
  \<^verbatim>\<open>method.toLowerCase() === 'get'\<close> holds for the eight spellings of \<^verbatim>\<open>get\<close> in upper and
  lower case, and for no other string.
\<close>

lemma of_char_lower_char:
  "(of_char (lower_char c) :: nat)
     = (if 65 \<le> (of_char c :: nat) \<and> (of_char c :: nat) \<le> 90 then of_char c + 32 else of_char c)"
  by (simp add: lower_char_def)

lemma lower_char_eq_iff:
  assumes "(of_char l :: nat) = of_char u + 32" and "65 \<le> (of_char u :: nat)" and "(of_char u :: nat) \<le> 90"
  shows "lower_char c = l \<longleftrightarrow> c = l \<or> c = u"
proof -
  have "lower_char c = l \<longleftrightarrow> (of_char (lower_char c) :: nat) = of_char l" by simp
  also have "\<dots> \<longleftrightarrow> (of_char c :: nat) = of_char l \<or> (of_char c :: nat) = of_char u"
    unfolding of_char_lower_char using assms by auto
  also have "\<dots> \<longleftrightarrow> c = l \<or> c = u" by simp
  finally show ?thesis .
qed

lemma lower_g: "lower_char c = CHR ''g'' \<longleftrightarrow> c = CHR ''g'' \<or> c = CHR ''G''"
  by (rule lower_char_eq_iff) simp_all

lemma lower_e: "lower_char c = CHR ''e'' \<longleftrightarrow> c = CHR ''e'' \<or> c = CHR ''E''"
  by (rule lower_char_eq_iff) simp_all

lemma lower_t: "lower_char c = CHR ''t'' \<longleftrightarrow> c = CHR ''t'' \<or> c = CHR ''T''"
  by (rule lower_char_eq_iff) simp_all

lemma toLowerCase_get_iff:
  "toLowerCase m = ''get'' \<longleftrightarrow>
     m \<in> {''get'', ''geT'', ''gEt'', ''gET'', ''Get'', ''GeT'', ''GEt'', ''GET''}"
proof -
  have "toLowerCase m = ''get'' \<longleftrightarrow>
          (\<exists>a b c. m = [a, b, c] \<and> lower_char a = CHR ''g'' \<and> lower_char b = CHR ''e''
                     \<and> lower_char c = CHR ''t'')"
    by (auto simp: toLowerCase_def map_eq_Cons_conv)
  also have "\<dots> \<longleftrightarrow> m \<in> {''get'', ''geT'', ''gEt'', ''gET'', ''Get'', ''GeT'', ''GEt'', ''GET''}"
    unfolding lower_g lower_e lower_t by auto
  finally show ?thesis .
qed

subsection \<open>What the adapter hands on\<close>

lemma legacy_ajax:
  assumes "legacy_request E AV route cls oid m d ao q = (evs, res)" and "Ajax a \<in> set evs"
  shows "\<exists>r. legacy_request_args route cls oid m d ao q = Returns r
             \<and> ajax_query a = query r \<and> ajax_data a = default_param (data r) (Obj [])
             \<and> ajax_method a = method r"
proof (cases "legacy_request_args route cls oid m d ao q")
  case (Throws e)
  with assms show ?thesis by (simp add: legacy_request_def)
next
  case (Returns r)
  with assms(1) have "request E AV r = (evs, res)" by (simp add: legacy_request_def)
  from request_ajax [OF this assms(2)] Returns show ?thesis by auto
qed

lemma legacy_args_get:
  assumes "legacy_request_args route cls oid (Str m) d ao q = Returns r" and "toLowerCase m = ''get''"
  shows "query r = extend_obj [] [q, default_param d (Obj [])] \<and> data r = Null"
proof -
  from assms(2) have "m \<noteq> []" by (auto simp: toLowerCase_def)
  with assms show ?thesis
    by (auto simp: legacy_request_args_def Let_def split: if_splits)
qed



lemma lower_POST: "toLowerCase ''POST'' = ''post''"
  by code_simp

subsection \<open>The adaptation of a GET\<close>





subsection \<open>The precedence of the data over the query\<close>

text \<open>
  C6. When the method is \<^verbatim>\<open>get\<close> in any mix of cases and the data object has a key, the query
  handed to the transport has the value of the data under that key, whatever the query
  had there: the data is merged in after the query.
\<close>

theorem legacy_get_data_wins:
  assumes "legacy_request E AV route cls oid (Str m) (Obj ds) ao q = (evs, res)"
      and "Ajax a \<in> set evs" and "toLowerCase m = ''get''" and "map_of ds k = Some v"
  shows "getp (ajax_query a) k = v"
proof -
  from legacy_ajax [OF assms(1,2)] obtain r where
    r: "legacy_request_args route cls oid (Str m) (Obj ds) ao q = Returns r"
    and a: "ajax_query a = query r" by auto
  from assms(4) have k: "k \<in> fst ` set ds" by (metis map_of_eq_None_iff option.distinct(1))
  from legacy_args_get [OF r assms(3)] have "query r = extend_obj [] [q, Obj ds]"
    by (simp add: default_param_def)
  with a k assms(4) show ?thesis
    by (simp add: getp_extend_obj)
qed

lemma lower_get: "toLowerCase ''get'' = ''get''"
  by code_simp

lemma example_legacy_collision:
  "legacy_request example_env example_av (Str ''classes'') (Str ''Todo'') Undefined (Str ''get'')
     (Obj [(''a'', Num 1)]) Undefined (Obj [(''a'', Num 2), (''b'', Num 2)])
     = ([Refresh, CurrentAsync,
         Ajax \<lparr>ajax_method = Str ''get'', ajax_url = ''https://x.example/1.1/classes/Todo'',
               ajax_query = Obj [(''a'', Num 1), (''b'', Num 2)], ajax_data = Null,
               ajax_headers = [(''X-LC-Id'', Str ''app-id''),
                               (''Content-Type'', Str ''application/json;charset=UTF-8''),
                               (''X-LC-Key'', Str ''app-key''), (''User-Agent'', Str ''sdk'')]\<rparr>],
        Returns (Fulfilled (Obj [])))"
  by (simp add: legacy_request_def legacy_request_args_def legacy_path_def lower_get extend_obj_def
        request_def refreshed_def example_env_def example_av_def
        createApiUrl_def lookup_member_def default_param_def setHeaders_def syncHeaders_def
        setAppId_def
        resolve_useMasterKey_def example_getSessionToken_def example_ajax_def Let_def)

theorem legacy_get_data_wins_witness:
  "toLowerCase ''get'' = ''get''
   \<and> map_of [(''a'', Num 1)] ''a'' = Some (Num 1)
   \<and> map_of [(''a'', Num 2), (''b'', Num 2)] ''a'' = Some (Num 2)
   \<and> legacy_request example_env example_av (Str ''classes'') (Str ''Todo'') Undefined (Str ''get'')
        (Obj [(''a'', Num 1)]) Undefined (Obj [(''a'', Num 2), (''b'', Num 2)])
       = ([Refresh, CurrentAsync,
           Ajax \<lparr>ajax_method = Str ''get'', ajax_url = ''https://x.example/1.1/classes/Todo'',
                 ajax_query = Obj [(''a'', Num 1), (''b'', Num 2)], ajax_data = Null,
                 ajax_headers = [(''X-LC-Id'', Str ''app-id''),
                                 (''Content-Type'', Str ''application/json;charset=UTF-8''),
                                 (''X-LC-Key'', Str ''app-key''), (''User-Agent'', Str ''sdk'')]\<rparr>],
          Returns (Fulfilled (Obj [])))
   \<and> getp (Obj [(''a'', Num 1), (''b'', Num 2)]) ''a'' = Num 1"
proof -
  let ?hs = "[(''X-LC-Id'', Str ''app-id''),
              (''Content-Type'', Str ''application/json;charset=UTF-8''),
              (''X-LC-Key'', Str ''app-key''), (''User-Agent'', Str ''sdk'')]"
  let ?a = "\<lparr>ajax_method = Str ''get'', ajax_url = ''https://x.example/1.1/classes/Todo'',
             ajax_query = Obj [(''a'', Num 1), (''b'', Num 2)], ajax_data = Null,
             ajax_headers = ?hs\<rparr>"
  have m: "Ajax ?a \<in> set [Refresh, CurrentAsync, Ajax ?a]" by simp
  have d: "map_of [(''a'', Num 1)] ''a'' = Some (Num 1)" by simp
  have q: "map_of [(''a'', Num 2), (''b'', Num 2)] ''a'' = Some (Num 2)" by simp
  from legacy_get_data_wins [OF example_legacy_collision m lower_get d]
  have w: "getp (Obj [(''a'', Num 1), (''b'', Num 2)]) ''a'' = Num 1" by simp
  from lower_get d q example_legacy_collision w show ?thesis
    by (intro conjI)
qed

subsection \<open>The reserved keys\<close>

text \<open>
  C7. (amended) When the data of a call of \<^verbatim>\<open>_request\<close> has a truthy value under the key
  \<^verbatim>\<open>_fetchWhenSave\<close> or under the key \<^verbatim>\<open>_where\<close>, the call throws synchronously, for every
  method, and nothing has happened by then: no refresh of the router, no call of the
  transport.
\<close>

theorem legacy_reserved_keys:
  assumes "truthy d" and "truthy (getp d ''_fetchWhenSave'') \<or> truthy (getp d ''_where'')"
  shows "legacy_request E AV route cls oid m d ao q
           = ([], Throws (Error (if truthy (getp d ''_fetchWhenSave'')
                                 then ''_fetchWhenSave should be in the query''
                                 else ''_where should be in the query'')))"
proof -
  from assms(1) have "default_param d (Obj []) = d" by (auto simp: default_param_def)
  with assms show ?thesis
    by (auto simp: legacy_request_def legacy_request_args_def Let_def)
qed

theorem legacy_reserved_keys_witness:
  "truthy (Obj [(''_where'', Obj [(''done'', Bool True)])])
   \<and> truthy (getp (Obj [(''_where'', Obj [(''done'', Bool True)])]) ''_where'')
   \<and> legacy_request example_env example_av (Str ''classes'') (Str ''Todo'') Undefined (Str ''GET'')
        (Obj [(''_where'', Obj [(''done'', Bool True)])]) Undefined Undefined
       = ([], Throws (Error ''_where should be in the query''))
   \<and> truthy (getp (Obj [(''_fetchWhenSave'', Bool True)]) ''_fetchWhenSave'')
   \<and> legacy_request example_env example_av (Str ''classes'') (Str ''Todo'') (Str ''id1'') (Str ''PUT'')
        (Obj [(''_fetchWhenSave'', Bool True)]) Undefined Undefined
       = ([], Throws (Error ''_fetchWhenSave should be in the query''))"
proof -
  have a: "truthy (Obj [(''_where'', Obj [(''done'', Bool True)])])" by simp
  have b: "truthy (getp (Obj [(''_where'', Obj [(''done'', Bool True)])]) ''_where'')" by simp
  have c: "truthy (Obj [(''_fetchWhenSave'', Bool True)])" by simp
  have d: "truthy (getp (Obj [(''_fetchWhenSave'', Bool True)]) ''_fetchWhenSave'')" by simp
  from legacy_reserved_keys [OF a disjI2 [OF b],
         of example_env example_av "Str ''classes''" "Str ''Todo''" Undefined "Str ''GET''" Undefined Undefined]
  have e: "legacy_request example_env example_av (Str ''classes'') (Str ''Todo'') Undefined (Str ''GET'')
        (Obj [(''_where'', Obj [(''done'', Bool True)])]) Undefined Undefined
       = ([], Throws (Error ''_where should be in the query''))"
    by simp
  from legacy_reserved_keys [OF c disjI1 [OF d],
         of example_env example_av "Str ''classes''" "Str ''Todo''" "Str ''id1''" "Str ''PUT''" Undefined Undefined]
  have f: "legacy_request example_env example_av (Str ''classes'') (Str ''Todo'') (Str ''id1'') (Str ''PUT'')
        (Obj [(''_fetchWhenSave'', Bool True)]) Undefined Undefined
       = ([], Throws (Error ''_fetchWhenSave should be in the query''))"
    by simp
  from a b e d f show ?thesis by (intro conjI)
qed

text \<open>
  The specification lets a call throw whenever the data contains one of the two keys. A
  key with a falsy value passes the check, and the data goes to the transport with it.
\<close>

theorem legacy_reserved_key_sent:
  "map_of [(''_fetchWhenSave'', Bool False)] ''_fetchWhenSave'' = Some (Bool False)
   \<and> legacy_request example_env example_av (Str ''classes'') (Str ''Todo'') Undefined (Str ''POST'')
        (Obj [(''_fetchWhenSave'', Bool False)]) Undefined Undefined
       = ([Refresh, CurrentAsync,
           Ajax \<lparr>ajax_method = Str ''POST'', ajax_url = ''https://x.example/1.1/classes/Todo'',
                 ajax_query = Undefined, ajax_data = Obj [(''_fetchWhenSave'', Bool False)],
                 ajax_headers = [(''X-LC-Id'', Str ''app-id''),
                                 (''Content-Type'', Str ''application/json;charset=UTF-8''),
                                 (''X-LC-Key'', Str ''app-key''), (''User-Agent'', Str ''sdk'')]\<rparr>],
          Returns (Fulfilled (Obj [])))"
  by (simp add: legacy_request_def legacy_request_args_def legacy_path_def lower_POST
        request_def refreshed_def example_env_def example_av_def
        createApiUrl_def lookup_member_def default_param_def setHeaders_def syncHeaders_def
        setAppId_def
        resolve_useMasterKey_def example_getSessionToken_def example_ajax_def Let_def)

end
